theory Spec2Isabelle
  imports Complex_Main "HOL-Library.Word"
begin

section \<open>Strings\<close>

text \<open>
  JavaScript strings are sequences of UTF-16 code units. The model uses \<^typ>\<open>string\<close>,
  so it covers the strings whose code units are below 256. In that range the
  white space of \<^verbatim>\<open>\s\<close> and of \<^verbatim>\<open>trim()\<close> is TAB, LF, VT, FF, CR, SPACE and NBSP.
\<close>

definition isSpace :: "char \<Rightarrow> bool" where
  "isSpace c = (of_char c \<in> {9::nat, 10, 11, 12, 13, 32, 160})"

text \<open>The line terminators that \<^verbatim>\<open>.\<close> does not match.\<close>

definition isLineTerminator :: "char \<Rightarrow> bool" where
  "isLineTerminator c = (of_char c \<in> {10::nat, 13})"

definition trimStart :: "string \<Rightarrow> string" where
  "trimStart s = dropWhile isSpace s"

definition trimEnd :: "string \<Rightarrow> string" where
  "trimEnd s = rev (dropWhile isSpace (rev s))"

definition trim :: "string \<Rightarrow> string" where
  "trim s = trimEnd (trimStart s)"

definition startsWith :: "string \<Rightarrow> string \<Rightarrow> bool" where
  "startsWith s p = (take (length p) s = p)"

definition endsWith :: "string \<Rightarrow> string \<Rightarrow> bool" where
  "endsWith s p = (length p \<le> length s \<and> drop (length s - length p) s = p)"

text \<open>\<^verbatim>\<open>s.includes(p)\<close>.\<close>

fun includesStr :: "string \<Rightarrow> string \<Rightarrow> bool" where
  "includesStr [] p = (p = [])"
| "includesStr (c # s) p = (startsWith (c # s) p \<or> includesStr s p)"

text \<open>\<^verbatim>\<open>s.slice(a, b)\<close> for offsets \<open>0 \<le> a\<close>, \<open>0 \<le> b\<close>.\<close>

definition sliceStr :: "string \<Rightarrow> nat \<Rightarrow> nat \<Rightarrow> string" where
  "sliceStr s a b = take (b - a) (drop a s)"

text \<open>\<^verbatim>\<open>s.slice(a, -b)\<close>: from offset \<open>a\<close> up to \<open>b\<close> characters before the end.\<close>

definition sliceEnd :: "string \<Rightarrow> nat \<Rightarrow> nat \<Rightarrow> string" where
  "sliceEnd s a b = sliceStr s a (length s - b)"

definition toLowerChar :: "char \<Rightarrow> char" where
  "toLowerChar c =
     (let n = (of_char c :: nat)
      in if (65 \<le> n \<and> n \<le> 90) \<or> (192 \<le> n \<and> n \<le> 222 \<and> n \<noteq> 215)
         then char_of (n + 32) else c)"

definition toLowerCase :: "string \<Rightarrow> string" where
  "toLowerCase s = map toLowerChar s"

text \<open>\<^verbatim>\<open>s.split(c)\<close> on a single separator character: never the empty list.\<close>

fun splitOn :: "char \<Rightarrow> string \<Rightarrow> string list" where
  "splitOn sep [] = [[]]"
| "splitOn sep (c # s) =
     (if c = sep then [] # splitOn sep s
      else (case splitOn sep s of [] \<Rightarrow> [[c]] | w # ws \<Rightarrow> (c # w) # ws))"

text \<open>\<^verbatim>\<open>xs.join(sep)\<close>.\<close>

fun join :: "string \<Rightarrow> string list \<Rightarrow> string" where
  "join sep [] = []"
| "join sep [x] = x"
| "join sep (x # y # ys) = x @ sep @ join sep (y # ys)"

section \<open>The block scanner\<close>

text \<open>
  \<^verbatim>\<open>Utils.findBalancedParenBlock(str, startIdx)\<close>. The \<^verbatim>\<open>for\<close> loop is \<open>scanBlock\<close>,
  its variables \<^verbatim>\<open>i\<close>, \<^verbatim>\<open>depth\<close>, \<^verbatim>\<open>started\<close> and \<^verbatim>\<open>block\<close> the arguments. The loop is left
  either by \<^verbatim>\<open>break\<close> (with \<^verbatim>\<open>i\<close> at the closing character) or when \<^verbatim>\<open>i\<close> reaches the
  length; in both cases \<^verbatim>\<open>[block, i + 1]\<close> is returned.
\<close>

function scanBlock :: "string \<Rightarrow> nat \<Rightarrow> int \<Rightarrow> bool \<Rightarrow> string \<Rightarrow> string \<times> nat" where
  "scanBlock str i depth started block =
     (if i < length str then
        (let char = str ! i;
             depth1 = (if char = CHR ''('' then depth + 1 else depth);
             started1 = (started \<or> char = CHR ''('');
             depth2 = (if char = CHR '')'' then depth1 - 1 else depth1);
             block1 = block @ [char]
         in if started1 \<and> depth2 = 0 then (block1, i + 1)
            else scanBlock str (i + 1) depth2 started1 block1)
      else (block, i + 1))"
  by pat_completeness auto
termination
  by (relation "measure (\<lambda>(str, i, depth, started, block). length str - i)") auto

definition findBalancedParenBlock :: "string \<Rightarrow> nat \<Rightarrow> string \<times> nat" where
  "findBalancedParenBlock str startIdx = scanBlock str startIdx 0 False []"

section \<open>Regular expressions\<close>

text \<open>
  The source parses with JavaScript regular expressions. Each literal is written below
  as a term of \<open>rx\<close>, and \<open>rxm\<close> is the backtracking matcher of the language
  definition (ECMAScript, RegExp pattern semantics) in continuation style: the
  alternatives are tried in priority order, a greedy star first tries one more
  iteration, a lazy star first tries to stop, and an iteration that consumes nothing is
  rejected. Captures hold the text of each group. No pattern of the source has a group
  inside a quantifier, so captures are never reset.
\<close>

datatype rx =
    Lit char
  | Cls "char \<Rightarrow> bool"
  | Cat rx rx
  | Alt rx rx
  | Star rx
  | StarLazy rx
  | Grp nat rx
  | Bref nat
  | Bol
  | Eol
  | NotAhead rx
  | Eps

type_synonym caps = "nat \<Rightarrow> string option"

function rxm :: "rx \<Rightarrow> string \<Rightarrow> nat \<Rightarrow> caps \<Rightarrow> (nat \<Rightarrow> caps \<Rightarrow> (nat \<times> caps) option)
    \<Rightarrow> (nat \<times> caps) option" where
  "rxm (Lit c) s i cs k = (if i < length s \<and> s ! i = c then k (Suc i) cs else None)"
| "rxm (Cls p) s i cs k = (if i < length s \<and> p (s ! i) then k (Suc i) cs else None)"
| "rxm (Cat a b) s i cs k = rxm a s i cs (\<lambda>j cs'. rxm b s j cs' k)"
| "rxm (Alt a b) s i cs k =
     (case rxm a s i cs k of Some x \<Rightarrow> Some x | None \<Rightarrow> rxm b s i cs k)"
| "rxm (Star a) s i cs k =
     (case rxm a s i cs
             (\<lambda>j cs'. if i < j \<and> j \<le> length s then rxm (Star a) s j cs' k else None) of
        Some x \<Rightarrow> Some x
      | None \<Rightarrow> k i cs)"
| "rxm (StarLazy a) s i cs k =
     (case k i cs of
        Some x \<Rightarrow> Some x
      | None \<Rightarrow>
          rxm a s i cs
            (\<lambda>j cs'. if i < j \<and> j \<le> length s then rxm (StarLazy a) s j cs' k else None))"
| "rxm (Grp n a) s i cs k = rxm a s i cs (\<lambda>j cs'. k j (cs'(n \<mapsto> sliceStr s i j)))"
| "rxm (Bref n) s i cs k =
     (case cs n of
        None \<Rightarrow> k i cs
      | Some w \<Rightarrow> if sliceStr s i (i + length w) = w then k (i + length w) cs else None)"
| "rxm Bol s i cs k = (if i = 0 then k i cs else None)"
| "rxm Eol s i cs k = (if i = length s then k i cs else None)"
| "rxm (NotAhead a) s i cs k =
     (case rxm a s i cs (\<lambda>j cs'. Some (j, cs')) of Some u \<Rightarrow> None | None \<Rightarrow> k i cs)"
| "rxm Eps s i cs k = k i cs"
  by pat_completeness auto
termination
  by (relation "inv_image (less_than <*lex*> less_than)
        (\<lambda>(r, s, i, cs, k). (size r, length s - i))") auto

text \<open>A match attempt at offset \<open>i\<close>: the end offset and the captures.\<close>

definition rxAt :: "rx \<Rightarrow> string \<Rightarrow> nat \<Rightarrow> (nat \<times> caps) option" where
  "rxAt r s i = rxm r s i Map.empty (\<lambda>j cs. Some (j, cs))"

text \<open>
  \<open>rxSearch r s i n\<close> tries the offsets \<open>i, i + 1, \<dots>\<close> (\<open>n\<close> of them) and returns the
  first match as (start, end, captures). \<^verbatim>\<open>s.match(r)\<close> and \<^verbatim>\<open>r.exec(s)\<close> of a pattern
  without the \<^verbatim>\<open>g\<close> flag are \<open>rxExec\<close>.
\<close>

fun rxSearch :: "rx \<Rightarrow> string \<Rightarrow> nat \<Rightarrow> nat \<Rightarrow> (nat \<times> nat \<times> caps) option" where
  "rxSearch r s i 0 = None"
| "rxSearch r s i (Suc n) =
     (case rxAt r s i of
        Some (j, cs) \<Rightarrow> Some (i, j, cs)
      | None \<Rightarrow> rxSearch r s (Suc i) n)"

definition rxExec :: "rx \<Rightarrow> string \<Rightarrow> (nat \<times> nat \<times> caps) option" where
  "rxExec r s = rxSearch r s 0 (Suc (length s))"

definition rxTest :: "rx \<Rightarrow> string \<Rightarrow> bool" where
  "rxTest r s = (rxExec r s \<noteq> None)"

text \<open>
  All matches of a pattern with the \<^verbatim>\<open>g\<close> flag, left to right from offset \<open>i\<close>. After
  an empty match the search resumes one character further. The next offset is always
  beyond \<open>i\<close>; the test \<open>i < next\<close> only shows it to the termination proof.
\<close>

function rxMatchAll :: "rx \<Rightarrow> string \<Rightarrow> nat \<Rightarrow> (nat \<times> nat \<times> caps) list" where
  "rxMatchAll r s i =
     (if length s < i then []
      else (case rxSearch r s i (Suc (length s) - i) of
              None \<Rightarrow> []
            | Some (a, b, cs) \<Rightarrow>
                (let next = (if b = a then Suc b else b)
                 in if i < next \<and> next \<le> Suc (length s)
                    then (a, b, cs) # rxMatchAll r s next else [(a, b, cs)])))"
  by pat_completeness auto
termination
  by (relation "measure (\<lambda>(r, s, i). Suc (length s) - i)") auto

text \<open>Abbreviations for the pattern syntax.\<close>

definition Plus :: "rx \<Rightarrow> rx" where
  "Plus a = Cat a (Star a)"

definition PlusLazy :: "rx \<Rightarrow> rx" where
  "PlusLazy a = Cat a (StarLazy a)"

definition Opt :: "rx \<Rightarrow> rx" where
  "Opt a = Alt a Eps"

fun Lits :: "string \<Rightarrow> rx" where
  "Lits [] = Eps"
| "Lits [c] = Lit c"
| "Lits (c # d # s) = Cat (Lit c) (Lits (d # s))"

text \<open>A literal under the \<^verbatim>\<open>i\<close> flag; the patterns of the source use it on ASCII letters only.\<close>

definition LitI :: "char \<Rightarrow> rx" where
  "LitI c = Cls (\<lambda>d. toLowerChar d = toLowerChar c)"

fun LitsI :: "string \<Rightarrow> rx" where
  "LitsI [] = Eps"
| "LitsI [c] = LitI c"
| "LitsI (c # d # s) = Cat (LitI c) (LitsI (d # s))"

definition Space :: rx where
  "Space = Cls isSpace"

definition NonSpace :: rx where
  "NonSpace = Cls (\<lambda>c. \<not> isSpace c)"

definition AnyChar :: rx where
  "AnyChar = Cls (\<lambda>c. True)"

definition Dot :: rx where
  "Dot = Cls (\<lambda>c. \<not> isLineTerminator c)"

definition group :: "caps \<Rightarrow> nat \<Rightarrow> string" where
  "group cs n = (case cs n of Some w \<Rightarrow> w | None \<Rightarrow> [])"

fun Seq :: "rx list \<Rightarrow> rx" where
  "Seq [] = Eps"
| "Seq [a] = a"
| "Seq (a # b # rs) = Cat a (Seq (b # rs))"

fun Alts :: "rx list \<Rightarrow> rx" where
  "Alts [] = Eps"
| "Alts [a] = a"
| "Alts (a # b # rs) = Alt a (Alts (b # rs))"

text \<open>\<^verbatim>\<open>s.replace(r, '$n')\<close> for a pattern without the \<^verbatim>\<open>g\<close> flag.\<close>

definition replaceByGroup :: "rx \<Rightarrow> nat \<Rightarrow> string \<Rightarrow> string" where
  "replaceByGroup r n s =
     (case rxExec r s of
        None \<Rightarrow> s
      | Some (a, b, cs) \<Rightarrow> take a s @ group cs n @ drop b s)"

text \<open>\<^verbatim>\<open>s.replace(r, '')\<close> for a pattern without the \<^verbatim>\<open>g\<close> flag.\<close>

definition removeMatch :: "rx \<Rightarrow> string \<Rightarrow> string" where
  "removeMatch r s =
     (case rxExec r s of
        None \<Rightarrow> s
      | Some (a, b, cs) \<Rightarrow> take a s @ drop b s)"

text \<open>\<^verbatim>\<open>s.replace(p, '')\<close> for a string \<open>p\<close>: the first occurrence of \<open>p\<close> is removed.\<close>

fun removeFirst :: "string \<Rightarrow> string \<Rightarrow> string" where
  "removeFirst [] p = []"
| "removeFirst (c # s) p =
     (if startsWith (c # s) p then drop (length p) (c # s) else c # removeFirst s p)"

section \<open>Values and the runtime\<close>

text \<open>
  JavaScript values. A finite number is a rational here: every finite double is one,
  and the model computes no arithmetic on numbers, it only compares them. Objects are
  association lists in insertion order. Objects have no identity in this model, and
  only own properties are read: the model covers configuration trees and requested
  paths whose keys do not name a member of a built-in prototype.
\<close>

datatype jsnum = NaN | PosInf | NegInf | Fin rat

datatype jsval =
    Undefined
  | Null
  | Bool bool
  | Num jsnum
  | Str string
  | Arr "jsval list"
  | Obj "(string \<times> jsval) list"

text \<open>
  What the code takes from the JavaScript runtime and not from the repository:
  the environment \<^verbatim>\<open>Bun.env\<close>, \<^verbatim>\<open>Number(s)\<close> and \<^verbatim>\<open>String(n)\<close>, \<^verbatim>\<open>JSON.parse\<close> (\<open>None\<close> when it
  throws), \<^verbatim>\<open>==\<close> between two objects, \<^verbatim>\<open>JSON.stringify(v, undefined, 2)\<close> and \<^verbatim>\<open>Bun.hash\<close>, a
  64-bit hash. They are parameters of the model.
\<close>

record runtime =
  env :: "string \<Rightarrow> string option"
  numberOfString :: "string \<Rightarrow> jsnum"
  stringOfNumber :: "jsnum \<Rightarrow> string"
  jsonParse :: "string \<Rightarrow> jsval option"
  sameObject :: "jsval \<Rightarrow> jsval \<Rightarrow> bool"
  jsonStringify :: "jsval \<Rightarrow> string"
  bunHash :: "string \<Rightarrow> 64 word"

text \<open>\<^verbatim>\<open>!v\<close> is \<open>\<not> truthy v\<close>.\<close>

fun truthy :: "jsval \<Rightarrow> bool" where
  "truthy Undefined = False"
| "truthy Null = False"
| "truthy (Bool b) = b"
| "truthy (Num n) = (n \<noteq> NaN \<and> n \<noteq> Fin 0)"
| "truthy (Str s) = (s \<noteq> [])"
| "truthy (Arr xs) = True"
| "truthy (Obj kvs) = True"

text \<open>\<^verbatim>\<open>String(v)\<close>; inside an array \<^verbatim>\<open>null\<close> and \<^verbatim>\<open>undefined\<close> are printed as nothing.\<close>

fun toStr :: "runtime \<Rightarrow> jsval \<Rightarrow> string" where
  "toStr rt Undefined = ''undefined''"
| "toStr rt Null = ''null''"
| "toStr rt (Bool b) = (if b then ''true'' else ''false'')"
| "toStr rt (Num n) = stringOfNumber rt n"
| "toStr rt (Str s) = s"
| "toStr rt (Arr xs) =
     join '','' (map (\<lambda>x. if x = Undefined \<or> x = Null then [] else toStr rt x) xs)"
| "toStr rt (Obj kvs) = ''[object Object]''"

text \<open>\<^verbatim>\<open>Number(v)\<close>.\<close>

fun toNumber :: "runtime \<Rightarrow> jsval \<Rightarrow> jsnum" where
  "toNumber rt Undefined = NaN"
| "toNumber rt Null = Fin 0"
| "toNumber rt (Bool b) = (if b then Fin 1 else Fin 0)"
| "toNumber rt (Num n) = n"
| "toNumber rt (Str s) = numberOfString rt s"
| "toNumber rt (Arr xs) = numberOfString rt (toStr rt (Arr xs))"
| "toNumber rt (Obj kvs) = numberOfString rt (toStr rt (Obj kvs))"

text \<open>\<^verbatim>\<open>Number.isFinite(v)\<close>: no conversion, a value that is not a number is not finite.\<close>

fun isFinite :: "jsval \<Rightarrow> bool" where
  "isFinite (Num (Fin r)) = True"
| "isFinite v = False"

text \<open>\<^verbatim>\<open>a < b\<close> and \<^verbatim>\<open>a == b\<close> on numbers.\<close>

fun numLess :: "jsnum \<Rightarrow> jsnum \<Rightarrow> bool" where
  "numLess NaN b = False"
| "numLess a NaN = False"
| "numLess PosInf b = False"
| "numLess NegInf b = (b \<noteq> NegInf)"
| "numLess (Fin x) PosInf = True"
| "numLess (Fin x) NegInf = False"
| "numLess (Fin x) (Fin y) = (x < y)"

definition numEq :: "jsnum \<Rightarrow> jsnum \<Rightarrow> bool" where
  "numEq a b = (a \<noteq> NaN \<and> a = b)"

definition isObject :: "jsval \<Rightarrow> bool" where
  "isObject v = (case v of Arr xs \<Rightarrow> True | Obj kvs \<Rightarrow> True | _ \<Rightarrow> False)"

text \<open>
  \<^verbatim>\<open>a == b\<close>, the loose equality of the language: values of one type are compared
  directly, \<^verbatim>\<open>null\<close> and \<^verbatim>\<open>undefined\<close> are equal to each other only, a Boolean is compared
  as a number, a string against a number as a number, and an object against a
  primitive by its string.
\<close>

definition looseEq :: "runtime \<Rightarrow> jsval \<Rightarrow> jsval \<Rightarrow> bool" where
  "looseEq rt a b =
     (let nullish = (\<lambda>v. v = Undefined \<or> v = Null);
          prim = (\<lambda>v. if isObject v then Str (toStr rt v) else v);
          num = (\<lambda>v. case v of Bool c \<Rightarrow> Num (toNumber rt v) | _ \<Rightarrow> v)
      in if nullish a \<or> nullish b then nullish a \<and> nullish b
         else if isObject a \<and> isObject b then sameObject rt a b
         else (case (num (prim a), num (prim b)) of
                 (Str x, Str y) \<Rightarrow> x = y
               | (Num x, Num y) \<Rightarrow> numEq x y
               | (Str x, Num y) \<Rightarrow> numEq (numberOfString rt x) y
               | (Num x, Str y) \<Rightarrow> numEq x (numberOfString rt y)
               | _ \<Rightarrow> False))"

section \<open>Utils\<close>

definition ensureObject :: "jsval \<Rightarrow> jsval \<Rightarrow> jsval" where
  "ensureObject val fallback = (if isObject val then val else fallback)"

text \<open>\<^verbatim>\<open>/^\((.*)\)$/\<close>\<close>

definition trimParensRx :: rx where
  "trimParensRx = Seq [Bol, Lit CHR ''('', Grp 1 (Star Dot), Lit CHR '')'', Eol]"

definition trimParensStr :: "string \<Rightarrow> string" where
  "trimParensStr str = trim (replaceByGroup trimParensRx 1 str)"

definition trimParens :: "jsval \<Rightarrow> jsval" where
  "trimParens v = (case v of Str str \<Rightarrow> Str (trimParensStr str) | _ \<Rightarrow> v)"

text \<open>\<^verbatim>\<open>/^(['"])(.*)\1$/\<close>\<close>

definition isQuote :: "char \<Rightarrow> bool" where
  "isQuote c = (c = CHR 0x27 \<or> c = CHR 0x22)"

definition trimQuotesRx :: rx where
  "trimQuotesRx = Seq [Bol, Grp 1 (Cls isQuote), Grp 2 (Star Dot), Bref 1, Eol]"

definition trimQuotesStr :: "string \<Rightarrow> string" where
  "trimQuotesStr str = trim (replaceByGroup trimQuotesRx 2 str)"

definition trimQuotes :: "jsval \<Rightarrow> jsval" where
  "trimQuotes v = (case v of Str str \<Rightarrow> Str (trimQuotesStr str) | _ \<Rightarrow> v)"

definition BooleanCheckMap :: "string list" where
  "BooleanCheckMap = [''true'', ''false'']"

definition parsePrimitiveValue :: "runtime \<Rightarrow> jsval \<Rightarrow> jsval" where
  "parsePrimitiveValue rt v =
     (case v of
        Str s \<Rightarrow>
          if trim s \<noteq> [] then
            (let lower = toLowerCase (trim s)
             in if lower \<in> set BooleanCheckMap then Bool (lower = ''true'')
                else (let num = Num (numberOfString rt s)
                      in if isFinite num then num
                         else (case jsonParse rt s of
                                 Some parsed \<Rightarrow> ensureObject parsed v
                               | None \<Rightarrow> v)))
          else v
      | _ \<Rightarrow> v)"

section \<open>Errors\<close>

text \<open>
  \<^verbatim>\<open>Throwable\<close> (\<^verbatim>\<open>src/lib/Throwable.ts\<close>) extends \<^verbatim>\<open>Error\<close> with a hint; the constructor
  deletes a hint that is empty or blank.
\<close>

record throwable =
  name :: string
  message :: string
  hint :: "string option"

definition Throwable :: "string \<Rightarrow> string \<Rightarrow> string \<Rightarrow> throwable" where
  "Throwable nm msg h =
     \<lparr> name = nm, message = msg, hint = (if h = [] \<or> trim h = [] then None else Some h) \<rparr>"

text \<open>
  What a call can raise: a \<^verbatim>\<open>Throwable\<close> of the repository, or the \<^verbatim>\<open>TypeError\<close> of the
  runtime (a string method called on a value that is not a string, a property written
  on a primitive). \<open>SharedWrite\<close> is no error of the program: the model answers it
  where the source writes into an object that it shares with the configuration tree or
  the memo cache, which a model without a store cannot follow.
\<close>

datatype error = Thrown throwable | TypeError | SharedWrite

text \<open>
  The result of a call that may not return: \<open>None\<close> is a call that has used up its
  recursion budget (in the source: unbounded recursion, ended by the stack limit).
\<close>

type_synonym 'a result = "(error + 'a) option"

definition bindR :: "'a result \<Rightarrow> ('a \<Rightarrow> 'b result) \<Rightarrow> 'b result" where
  "bindR m f = (case m of None \<Rightarrow> None | Some (Inl e) \<Rightarrow> Some (Inl e) | Some (Inr x) \<Rightarrow> f x)"

definition returnR :: "'a \<Rightarrow> 'a result" where
  "returnR x = Some (Inr x)"

definition throwR :: "error \<Rightarrow> 'a result" where
  "throwR e = Some (Inl e)"

section \<open>Reading the configuration tree\<close>

text \<open>The index that a property key denotes: a decimal numeral without a leading zero.\<close>

definition isDigit :: "char \<Rightarrow> bool" where
  "isDigit c = (48 \<le> (of_char c :: nat) \<and> (of_char c :: nat) \<le> 57)"

definition indexOfKey :: "string \<Rightarrow> nat option" where
  "indexOfKey key =
     (if key \<noteq> [] \<and> list_all isDigit key \<and> (length key = 1 \<or> hd key \<noteq> CHR ''0'')
      then Some (foldl (\<lambda>n c. 10 * n + (of_char c - 48)) 0 key) else None)"

text \<open>\<^verbatim>\<open>obj?.[key]\<close> on own properties.\<close>

definition getProp :: "jsval \<Rightarrow> string \<Rightarrow> jsval" where
  "getProp obj key =
     (case obj of
        Obj kvs \<Rightarrow> (case map_of kvs key of Some v \<Rightarrow> v | None \<Rightarrow> Undefined)
      | Arr xs \<Rightarrow>
          if key = ''length'' then Num (Fin (of_nat (length xs)))
          else (case indexOfKey key of
                  Some n \<Rightarrow> if n < length xs then xs ! n else Undefined
                | None \<Rightarrow> Undefined)
      | Str s \<Rightarrow>
          if key = ''length'' then Num (Fin (of_nat (length s)))
          else (case indexOfKey key of
                  Some n \<Rightarrow> if n < length s then Str [s ! n] else Undefined
                | None \<Rightarrow> Undefined)
      | _ \<Rightarrow> Undefined)"

text \<open>\<^verbatim>\<open>#resolveConfigPath(path)\<close> on the tree \<open>config\<close>.\<close>

definition resolveConfigPath :: "jsval \<Rightarrow> string \<Rightarrow> jsval" where
  "resolveConfigPath config path =
     (if trim path = [] then Undefined
      else foldl getProp config (splitOn CHR ''.'' path))"

section \<open>The logic evaluator\<close>

text \<open>
  \<^verbatim>\<open>#resolveVariable\<close>, \<^verbatim>\<open>#evaluateNullishCoalesce\<close>, \<^verbatim>\<open>#evaluateIfElseLogic\<close> (with its
  local functions \<^verbatim>\<open>evalComparison\<close>, \<^verbatim>\<open>tokenizeCondition\<close> and \<^verbatim>\<open>evalLogical\<close>) and
  \<^verbatim>\<open>#evaluateLogicBlock\<close> call each other without a bound. Each is defined below with a
  first argument \<open>self\<close>: the same functions with one unit less of recursion budget.
  They read the tree and the environment and write nothing.
\<close>

record methods =
  call_resolveVariable :: "jsval \<Rightarrow> jsval result"
  call_evaluateNullishCoalesce :: "string \<Rightarrow> jsval result"
  call_evaluateIfElseLogic :: "string \<Rightarrow> jsval result"
  call_evaluateLogicBlock :: "string \<Rightarrow> jsval result"
  call_evalLogical :: "string \<Rightarrow> bool result"
  call_evalComparison :: "string \<Rightarrow> bool result"

definition isBlock :: "string \<Rightarrow> bool" where
  "isBlock s = (startsWith s ''{{'' \<and> endsWith s ''}}'')"

definition resolveVariable :: "runtime \<Rightarrow> jsval \<Rightarrow> methods \<Rightarrow> jsval \<Rightarrow> jsval result" where
  "resolveVariable rt config self variable =
     (case variable of
        Str v \<Rightarrow>
          if \<not> startsWith v ''$'' then returnR (Str v)
          else
            (let var = drop 1 v
             in if trim var = [] then returnR Undefined
                else
                  (let found = resolveConfigPath config var;
                       value = (if found = Undefined
                                then (case env rt var of
                                        Some e \<Rightarrow> Str (trim e)
                                      | None \<Rightarrow> Undefined)
                                else found)
                   in case value of
                        Str sv \<Rightarrow>
                          if isBlock (trim sv) then call_evaluateLogicBlock self (trim sv)
                          else returnR value
                      | _ \<Rightarrow> returnR value))
      | _ \<Rightarrow> throwR TypeError)"

text \<open>\<^verbatim>\<open>/^(?!if\s+)\s*(?<left>[\s\S]+?)\s*\?\?\s*(?<right>[\s\S]+?)\s*$/\<close>\<close>

definition nullishCoalesceRegex :: rx where
  "nullishCoalesceRegex =
     Seq [Bol, NotAhead (Cat (Lits ''if'') (Plus Space)), Star Space,
          Grp 1 (PlusLazy AnyChar), Star Space, Lits ''??'', Star Space,
          Grp 2 (PlusLazy AnyChar), Star Space, Eol]"

text \<open>\<^verbatim>\<open>v ?? ''\<close>\<close>

definition orEmpty :: "jsval \<Rightarrow> jsval" where
  "orEmpty v = (if v = Undefined \<or> v = Null then Str [] else v)"

definition evaluateNullishCoalesce :: "runtime \<Rightarrow> methods \<Rightarrow> string \<Rightarrow> jsval result" where
  "evaluateNullishCoalesce rt self content =
     (case rxExec nullishCoalesceRegex content of
        None \<Rightarrow> returnR Undefined
      | Some (a, b, cs) \<Rightarrow>
          bindR (call_resolveVariable self (trimParens (trimParens (Str (group cs 1)))))
            (\<lambda>l. let left = orEmpty l
                 in if \<not> looseEq rt left (Str []) then returnR left
                    else
                      bindR (call_resolveVariable self
                               (trimParens (trimParens (Str (group cs 2)))))
                        (\<lambda>r. let right = orEmpty r
                             in if \<not> looseEq rt right (Str []) then returnR right
                                else returnR Undefined)))"

subsection \<open>Comparisons\<close>

definition ConditionOperators :: "string list" where
  "ConditionOperators =
     [''equals'', ''startswith'', ''endswith'', ''contains'', ''>'', ''>='', ''<'', ''<='']"

text \<open>
  \<^verbatim>\<open>^\s*([^\s]+|\([^\)]+\))\s*(OPERATORS)\s*(['"].*?['"]|[^\s]+)\s*$\<close>, where
  \<^verbatim>\<open>OPERATORS\<close> is the alternation of \<open>ConditionOperators\<close> in their order, each
  escaped to stand for itself.
\<close>

definition opRegex :: rx where
  "opRegex =
     Seq [Bol, Star Space,
          Grp 1 (Alt (Plus NonSpace)
                     (Seq [Lit CHR ''('', Plus (Cls (\<lambda>c. c \<noteq> CHR '')'')), Lit CHR '')''])),
          Star Space,
          Grp 2 (Alts (map Lits ConditionOperators)),
          Star Space,
          Grp 3 (Alt (Seq [Cls isQuote, StarLazy Dot, Cls isQuote]) (Plus NonSpace)),
          Star Space, Eol]"

text \<open>The \<^verbatim>\<open>switch\<close> on the operator, after both sides have been evaluated.\<close>

definition compareValues :: "runtime \<Rightarrow> string \<Rightarrow> jsval \<Rightarrow> jsval \<Rightarrow> bool" where
  "compareValues rt operator left0 right0 =
     (let ordering = (startsWith operator ''<'' \<or> startsWith operator ''>'');
          left = (if ordering then Num (toNumber rt left0) else left0);
          right = (if ordering then Num (toNumber rt right0) else right0);
          isNumeric = (isFinite left \<and> isFinite right);
          l = toNumber rt left;
          r = toNumber rt right
      in if operator = ''equals'' then looseEq rt left right
         else if operator = ''startswith'' then startsWith (toStr rt left) (toStr rt right)
         else if operator = ''endswith'' then endsWith (toStr rt left) (toStr rt right)
         else if operator = ''contains'' then includesStr (toStr rt left) (toStr rt right)
         else if operator = ''>'' then isNumeric \<and> numLess r l
         else if operator = ''>='' then isNumeric \<and> (numLess r l \<or> numEq l r)
         else if operator = ''<'' then isNumeric \<and> numLess l r
         else if operator = ''<='' then isNumeric \<and> (numLess l r \<or> numEq l r)
         else False)"

text \<open>The local function \<^verbatim>\<open>evaluate\<close> of \<^verbatim>\<open>evalComparison\<close>.\<close>

definition evaluateSide :: "methods \<Rightarrow> string \<Rightarrow> jsval result" where
  "evaluateSide self str =
     bindR (call_evaluateLogicBlock self (''{{ '' @ trimParensStr str @ '' }}''))
       (\<lambda>v. call_resolveVariable self (trimQuotes v))"

definition evalComparison :: "runtime \<Rightarrow> methods \<Rightarrow> string \<Rightarrow> bool result" where
  "evalComparison rt self cond =
     (case rxExec opRegex (trimParensStr cond) of
        None \<Rightarrow> returnR False
      | Some (a, b, cs) \<Rightarrow>
          (let left = trimQuotesStr (group cs 1);
               operator = group cs 2;
               right = trimQuotesStr (group cs 3)
           in if (trim left = [] \<and> trim right \<noteq> []) \<or> (trim left \<noteq> [] \<and> trim right = [])
              then returnR False
              else
                bindR (evaluateSide self left)
                  (\<lambda>l. bindR (evaluateSide self right)
                     (\<lambda>r. returnR (compareValues rt operator l r)))))"

subsection \<open>Conditions\<close>

text \<open>
  \<^verbatim>\<open>tokenizeCondition\<close>: the \<^verbatim>\<open>while\<close> loop with its variables \<^verbatim>\<open>i\<close>, \<^verbatim>\<open>current\<close>, \<^verbatim>\<open>depth\<close>
  and \<^verbatim>\<open>tokens\<close>. \<^verbatim>\<open>str[i - 1]\<close> at \<open>i = 0\<close> and \<^verbatim>\<open>str[i + 3]\<close> beyond the end are
  \<^verbatim>\<open>undefined\<close>, which the source replaces by the empty string: no white space.
\<close>

definition spaceAt :: "string \<Rightarrow> nat \<Rightarrow> bool" where
  "spaceAt str i = (i < length str \<and> isSpace (str ! i))"

definition pushTrimmed :: "string list \<Rightarrow> string \<Rightarrow> string list" where
  "pushTrimmed tokens current = (if trim current \<noteq> [] then tokens @ [trim current] else tokens)"

function tokenizeLoop :: "string \<Rightarrow> nat \<Rightarrow> string \<Rightarrow> int \<Rightarrow> string list \<Rightarrow> string list" where
  "tokenizeLoop str i current depth tokens =
     (if i < length str then
        (if str ! i = CHR ''('' then
           tokenizeLoop str (i + 1) (current @ [str ! i]) (depth + 1) tokens
         else if str ! i = CHR '')'' then
           tokenizeLoop str (i + 1) (current @ [str ! i]) (depth - 1) tokens
         else if depth = 0 then
           (let token = trimEnd (toLowerCase (sliceStr str i (i + 3)))
            in if token = ''and'' \<and> 0 < i \<and> spaceAt str (i - 1) \<and> spaceAt str (i + 3) then
                 tokenizeLoop str (i + 3) [] depth (pushTrimmed tokens current @ [token])
               else if token = ''or'' \<and> 0 < i \<and> spaceAt str (i - 1) \<and> spaceAt str (i + 2) then
                 tokenizeLoop str (i + 2) [] depth (pushTrimmed tokens current @ [token])
               else tokenizeLoop str (i + 1) (current @ [str ! i]) depth tokens)
         else tokenizeLoop str (i + 1) (current @ [str ! i]) depth tokens)
      else pushTrimmed tokens current)"
  by pat_completeness auto
termination
  by (relation "measure (\<lambda>(str, i, current, depth, tokens). length str - i)") auto

definition tokenizeCondition :: "string \<Rightarrow> string list" where
  "tokenizeCondition str = tokenizeLoop str 0 [] 0 []"

text \<open>
  The test of \<^verbatim>\<open>evalLogical\<close> that the parentheses around the whole condition belong
  together: the \<^verbatim>\<open>for\<close> loop over \<^verbatim>\<open>i\<close> and \<^verbatim>\<open>depth\<close>, which is left with \<^verbatim>\<open>balanced = false\<close>
  as soon as the depth is back to zero before the last character.
\<close>

function balancedLoop :: "string \<Rightarrow> nat \<Rightarrow> int \<Rightarrow> bool" where
  "balancedLoop cond i depth =
     (if i < length cond then
        (let depth1 = (if cond ! i = CHR ''('' then depth + 1 else depth);
             depth2 = (if cond ! i = CHR '')'' then depth1 - 1 else depth1)
         in if depth2 = 0 \<and> i + 1 < length cond then False
            else balancedLoop cond (i + 1) depth2)
      else True)"
  by pat_completeness auto
termination
  by (relation "measure (\<lambda>(cond, i, depth). length cond - i)") auto

text \<open>\<^verbatim>\<open>/^not\s+/i\<close>\<close>

definition notRx :: rx where
  "notRx = Seq [Bol, LitsI ''not'', Plus Space]"

text \<open>
  The loop of \<^verbatim>\<open>evalLogical\<close> over the tokens, with its variables \<^verbatim>\<open>result\<close> and \<^verbatim>\<open>op\<close>
  (\<open>None\<close> is \<^verbatim>\<open>undefined\<close>); \<open>ev\<close> is the recursive call \<^verbatim>\<open>evalLogical(token)\<close>.
\<close>

primrec combineTokens :: "(string \<Rightarrow> bool result) \<Rightarrow> string list \<Rightarrow> bool option \<Rightarrow> string option
    \<Rightarrow> bool result" where
  "combineTokens ev [] result op = returnR (result = Some True)"
| "combineTokens ev (token # tokens) result op =
     (if token = ''and'' \<or> token = ''or'' then combineTokens ev tokens result (Some token)
      else if result \<noteq> Some True then
        bindR (ev token) (\<lambda>r. combineTokens ev tokens (Some r) None)
      else if op = Some ''and'' \<and> result = Some True then
        (if result \<noteq> Some True then returnR False
         else bindR (ev token) (\<lambda>r. combineTokens ev tokens (Some (result = Some True \<and> r)) None))
      else if op = Some ''or'' then
        (if result = Some True then returnR True
         else bindR (ev token) (\<lambda>r. combineTokens ev tokens (Some (result = Some True \<or> r)) None))
      else combineTokens ev tokens result None)"

definition evalLogical :: "methods \<Rightarrow> string \<Rightarrow> bool result" where
  "evalLogical self cond0 =
     (let cond = trim cond0
      in if startsWith cond ''('' \<and> endsWith cond '')'' \<and> balancedLoop cond 0 0 then
           call_evalLogical self (sliceEnd cond 1 1)
         else if rxTest notRx cond then
           bindR (call_evalLogical self (removeMatch notRx cond)) (\<lambda>r. returnR (\<not> r))
         else
           (let tokens = tokenizeCondition cond
            in if length tokens = 1 then call_evalComparison self (tokens ! 0)
               else combineTokens (call_evalLogical self) tokens None None))"

subsection \<open>Directive blocks\<close>

text \<open>\<^verbatim>\<open>/^if\s+\(([\s\S]+?)\)\s+then\s+\(/i\<close>\<close>

definition ifThenElseRx :: rx where
  "ifThenElseRx =
     Seq [Bol, LitsI ''if'', Plus Space, Lit CHR ''('', Grp 1 (PlusLazy AnyChar), Lit CHR '')'',
          Plus Space, LitsI ''then'', Plus Space, Lit CHR ''('']"

definition evaluateIfElseLogic :: "methods \<Rightarrow> string \<Rightarrow> jsval result" where
  "evaluateIfElseLogic self content =
     (case rxExec ifThenElseRx content of
        None \<Rightarrow> returnR Undefined
      | Some (a, b, cs) \<Rightarrow>
          (let condEnd = (b - a) - 1;
               (trueBlockWithParens, afterTrueIdx) = findBalancedParenBlock content condEnd;
               afterTrue = trim (drop afterTrueIdx content)
           in if \<not> startsWith afterTrue ''else'' then returnR Undefined
              else
                (let elseBlock = trim (drop 4 afterTrue)
                 in if startsWith elseBlock ''if'' then call_evaluateIfElseLogic self elseBlock
                    else if \<not> startsWith elseBlock ''('' then returnR Undefined
                    else
                      (let (falseBlockWithParens, afterFalseIdx) =
                             findBalancedParenBlock elseBlock 0;
                           condition = group cs 1;
                           trueBlock = sliceEnd trueBlockWithParens 1 1;
                           falseBlock = sliceEnd falseBlockWithParens 1 1
                       in bindR (call_evalLogical self condition)
                            (\<lambda>conditionResult.
                               bindR (call_evaluateLogicBlock self
                                        (''{{ '' @ trim (if conditionResult then trueBlock
                                                          else falseBlock) @ '' }}''))
                                 (\<lambda>v. returnR (trimQuotes v)))))))"

text \<open>\<^verbatim>\<open>s.split(/\r?\n/)\<close>\<close>

fun splitLines :: "string \<Rightarrow> string list" where
  "splitLines [] = [[]]"
| "splitLines [c] = (if c = CHR 0x0A then [[], []] else [[c]])"
| "splitLines (c # d # s) =
     (if c = CHR 0x0D \<and> d = CHR 0x0A then [] # splitLines s
      else if c = CHR 0x0A then [] # splitLines (d # s)
      else (case splitLines (d # s) of [] \<Rightarrow> [[c]] | w # ws \<Rightarrow> (c # w) # ws))"

text \<open>The first line of \<^verbatim>\<open>#evaluateLogicBlock\<close>: the input trimmed, its lines trimmed and joined.\<close>

definition joinLines :: "string \<Rightarrow> string" where
  "joinLines input = join '' '' (map trim (splitLines (trim input)))"

definition evaluateLogicBlock :: "methods \<Rightarrow> string \<Rightarrow> jsval result" where
  "evaluateLogicBlock self input =
     (let trimmed = joinLines input
      in if \<not> startsWith trimmed ''{{'' \<or> \<not> endsWith trimmed ''}}'' then returnR (Str input)
         else
           (let content = trim (sliceEnd trimmed 2 2)
            in bindR (call_evaluateNullishCoalesce self content)
                 (\<lambda>nullish.
                    if nullish \<noteq> Undefined then returnR (trimQuotes nullish)
                    else bindR (call_evaluateIfElseLogic self content)
                           (\<lambda>ifElse.
                              if ifElse \<noteq> Undefined then returnR (trimQuotes ifElse)
                              else returnR (Str content)))))"

text \<open>
  The methods of an instance with tree \<open>config\<close>: \<open>instanceMethods\<close> binds \<^verbatim>\<open>this\<close>, and
  \<open>evaluator rt config n\<close> are the methods with recursion budget \<open>n\<close>. With no budget
  left a call does not return.
\<close>

definition instanceMethods :: "runtime \<Rightarrow> jsval \<Rightarrow> methods \<Rightarrow> methods" where
  "instanceMethods rt config self =
     \<lparr> call_resolveVariable = resolveVariable rt config self,
       call_evaluateNullishCoalesce = evaluateNullishCoalesce rt self,
       call_evaluateIfElseLogic = evaluateIfElseLogic self,
       call_evaluateLogicBlock = evaluateLogicBlock self,
       call_evalLogical = evalLogical self,
       call_evalComparison = evalComparison rt self \<rparr>"

definition noMethods :: methods where
  "noMethods =
     \<lparr> call_resolveVariable = (\<lambda>v. None),
       call_evaluateNullishCoalesce = (\<lambda>s. None),
       call_evaluateIfElseLogic = (\<lambda>s. None),
       call_evaluateLogicBlock = (\<lambda>s. None),
       call_evalLogical = (\<lambda>s. None),
       call_evalComparison = (\<lambda>s. None) \<rparr>"

primrec evaluator :: "runtime \<Rightarrow> jsval \<Rightarrow> nat \<Rightarrow> methods" where
  "evaluator rt config 0 = noMethods"
| "evaluator rt config (Suc n) = instanceMethods rt config (evaluator rt config n)"

section \<open>The Config instance\<close>

text \<open>
  The private fields of \<^verbatim>\<open>Config\<close>: the tree \<^verbatim>\<open>#config\<close>, the memo cache \<^verbatim>\<open>#bank\<close> (an entry
  with value \<open>Undefined\<close> is the sentinel) and \<^verbatim>\<open>#dependencies\<close>. The field \<open>resolutions\<close>
  is not in the source: it records, in order, the paths for which \<^verbatim>\<open>#resolveVariableChain\<close>
  has called \<^verbatim>\<open>#resolveVariable\<close>, so that the number of these calls can be stated.
\<close>

record configState =
  config :: jsval
  bank :: "string \<Rightarrow> jsval option"
  dependencies :: "string \<Rightarrow> string set option"
  resolutions :: "string list"

text \<open>\<^verbatim>\<open>new Config(config)\<close>\<close>

definition newConfig :: "jsval \<Rightarrow> configState" where
  "newConfig tree =
     \<lparr> config = ensureObject tree (Obj []), bank = Map.empty, dependencies = Map.empty,
       resolutions = [] \<rparr>"

text \<open>A call that may change the instance returns its state as well, also when it raises.\<close>

type_synonym 'a sresult = "((error + 'a) \<times> configState) option"

definition bindS :: "'a sresult \<Rightarrow> ('a \<Rightarrow> configState \<Rightarrow> 'b sresult) \<Rightarrow> 'b sresult" where
  "bindS m f =
     (case m of
        None \<Rightarrow> None
      | Some (Inl e, st) \<Rightarrow> Some (Inl e, st)
      | Some (Inr x, st) \<Rightarrow> f x st)"

definition returnS :: "'a \<Rightarrow> configState \<Rightarrow> 'a sresult" where
  "returnS x st = Some (Inr x, st)"

definition throwS :: "error \<Rightarrow> configState \<Rightarrow> 'a sresult" where
  "throwS e st = Some (Inl e, st)"

text \<open>A call of the evaluator, which leaves the state as it is.\<close>

definition liftS :: "'a result \<Rightarrow> configState \<Rightarrow> 'a sresult" where
  "liftS m st = (case m of None \<Rightarrow> None | Some r \<Rightarrow> Some (r, st))"

record resolverMethods =
  call_translateVariables :: "configState \<Rightarrow> jsval \<Rightarrow> string list \<Rightarrow> jsval sresult"
  call_resolveVariableChain :: "configState \<Rightarrow> string \<Rightarrow> string \<Rightarrow> string list \<Rightarrow> jsval sresult"

text \<open>
  The end of \<^verbatim>\<open>#resolveVariableChain\<close>, from \<^verbatim>\<open>const cached = this.#bank.get(variable)\<close> on.
\<close>

definition returnCached :: "configState \<Rightarrow> string \<Rightarrow> string \<Rightarrow> string list \<Rightarrow> jsval sresult" where
  "returnCached st str variable chain =
     (let cached = (case bank st variable of Some v \<Rightarrow> v | None \<Rightarrow> Undefined);
          st1 = (if chain \<noteq> [] then
                   (let deps = (case dependencies st variable of Some d \<Rightarrow> d | None \<Rightarrow> {})
                    in st\<lparr>dependencies := (dependencies st)(variable \<mapsto> deps \<union> set chain)\<rparr>)
                 else st)
      in if cached = Undefined then returnS (Str str) st1 else returnS cached st1)"

definition resolveVariableChain :: "runtime \<Rightarrow> nat \<Rightarrow> resolverMethods \<Rightarrow> configState \<Rightarrow> string \<Rightarrow> string
    \<Rightarrow> string list \<Rightarrow> jsval sresult" where
  "resolveVariableChain rt n self st str variable chain =
     (if variable = [] then returnS (Str str) st
      else
        (let nextChain = chain @ [variable]
         in if variable \<in> set chain then
              throwS (Thrown (Throwable ''ReferenceError'' ''Circular dependency detected''
                               (join '' -> '' nextChain))) st
            else if bank st variable = None then
              (let st1 = st\<lparr>bank := (bank st)(variable \<mapsto> Undefined),
                            resolutions := resolutions st @ [variable]\<rparr>
               in bindS (liftS (call_resolveVariable (evaluator rt (config st1) n)
                                  (Str (''$'' @ variable))) st1)
                    (\<lambda>configValue st2.
                       if configValue = Undefined then returnS (Str str) st2
                       else
                         bindS (call_translateVariables self st2 configValue nextChain)
                           (\<lambda>formatted st3.
                              returnCached (st3\<lparr>bank := (bank st3)(variable \<mapsto> formatted)\<rparr>)
                                str variable chain)))
            else returnCached st str variable chain))"

text \<open>
  \<^verbatim>\<open>s.replace(r, f)\<close> for a pattern with the \<^verbatim>\<open>g\<close> flag and a function \<open>f\<close>: the matches
  \<open>ms\<close> are replaced from left to right by what \<open>f\<close> returns for the matched text and
  its captures; \<open>pos\<close> is the end of the previous match.
\<close>

fun replaceMatches :: "(string \<Rightarrow> caps \<Rightarrow> configState \<Rightarrow> string sresult) \<Rightarrow> string \<Rightarrow> nat
    \<Rightarrow> (nat \<times> nat \<times> caps) list \<Rightarrow> configState \<Rightarrow> string sresult" where
  "replaceMatches f s pos [] st = returnS (drop pos s) st"
| "replaceMatches f s pos ((a, b, cs) # ms) st =
     bindS (f (sliceStr s a b) cs st)
       (\<lambda>rep st1. bindS (replaceMatches f s b ms st1)
          (\<lambda>rest st2. returnS (sliceStr s pos a @ rep @ rest) st2))"

text \<open>\<^verbatim>\<open>xs.map(f)\<close> for a function that may change the instance.\<close>

fun mapS :: "('a \<Rightarrow> configState \<Rightarrow> 'b sresult) \<Rightarrow> 'a list \<Rightarrow> configState \<Rightarrow> 'b list sresult" where
  "mapS f [] st = returnS [] st"
| "mapS f (x # xs) st =
     bindS (f x st) (\<lambda>y st1. bindS (mapS f xs st1) (\<lambda>ys st2. returnS (y # ys) st2))"

definition isNameStart :: "char \<Rightarrow> bool" where
  "isNameStart c =
     (let n = (of_char c :: nat) in (65 \<le> n \<and> n \<le> 90) \<or> (97 \<le> n \<and> n \<le> 122) \<or> n = 95)"

definition isNameChar :: "char \<Rightarrow> bool" where
  "isNameChar c = (isNameStart c \<or> isDigit c \<or> c = CHR ''.'')"

text \<open>
  \<^verbatim>\<open>/^\$([a-zA-Z_][a-zA-Z0-9_\.]*)$/\<close>, the same pattern without its anchors and with the
  \<^verbatim>\<open>g\<close> flag, and \<^verbatim>\<open>/(\{\{[\s\S]+?\}\})/mg\<close>.
\<close>

definition referenceBody :: rx where
  "referenceBody = Cat (Lit CHR ''$'') (Grp 1 (Cat (Cls isNameStart) (Star (Cls isNameChar))))"

definition referenceRegex :: rx where
  "referenceRegex = Seq [Bol, referenceBody, Eol]"

definition blockRegex :: rx where
  "blockRegex = Grp 1 (Seq [Lits ''{{'', PlusLazy AnyChar, Lits ''}}''])"

text \<open>
  The two \<^verbatim>\<open>replace\<close> calls of \<^verbatim>\<open>#translateVariables\<close>: every directive block is replaced by
  its evaluation, and every reference by the result of \<^verbatim>\<open>#resolveVariableChain\<close>;
  \<^verbatim>\<open>replace\<close> turns what the function returns into a string.
\<close>

definition replaceBlocks :: "runtime \<Rightarrow> nat \<Rightarrow> string \<Rightarrow> configState \<Rightarrow> string sresult" where
  "replaceBlocks rt n v st =
     replaceMatches
       (\<lambda>input cs st1.
          bindS (liftS (call_evaluateLogicBlock (evaluator rt (config st1) n) input) st1)
            (\<lambda>r st2. returnS (toStr rt r) st2))
       v 0 (rxMatchAll blockRegex v 0) st"

definition replaceReferences :: "runtime \<Rightarrow> resolverMethods \<Rightarrow> string \<Rightarrow> string list \<Rightarrow> configState
    \<Rightarrow> string sresult" where
  "replaceReferences rt self v chain st =
     replaceMatches
       (\<lambda>str cs st1.
          bindS (call_resolveVariableChain self st1 str (group cs 1) chain)
            (\<lambda>r st2. returnS (toStr rt r) st2))
       v 0 (rxMatchAll referenceBody v 0) st"

definition translateVariables :: "runtime \<Rightarrow> nat \<Rightarrow> resolverMethods \<Rightarrow> configState \<Rightarrow> jsval
    \<Rightarrow> string list \<Rightarrow> jsval sresult" where
  "translateVariables rt n self st value chain =
     (case value of
        Str v \<Rightarrow>
          (let fullMatch = rxExec referenceRegex v
           in bindS (replaceBlocks rt n v st)
                (\<lambda>v1 st1.
                   case (case fullMatch of
                           Some (a, b, cs) \<Rightarrow>
                             if trim (removeFirst v1 (sliceStr v a b)) = []
                             then Some (sliceStr v a b, group cs 1) else None
                         | None \<Rightarrow> None) of
                     Some (whole, variable) \<Rightarrow>
                       call_resolveVariableChain self st1 whole variable chain
                   | None \<Rightarrow>
                       bindS (replaceReferences rt self v1 chain st1)
                         (\<lambda>v2 st2. returnS (parsePrimitiveValue rt (Str v2)) st2)))
      | Arr xs \<Rightarrow>
          bindS (mapS (\<lambda>val st1. call_translateVariables self st1 val chain) xs st)
            (\<lambda>ys st1. returnS (Arr ys) st1)
      | _ \<Rightarrow> returnS (parsePrimitiveValue rt value) st)"

definition resolverInstance :: "runtime \<Rightarrow> nat \<Rightarrow> resolverMethods \<Rightarrow> resolverMethods" where
  "resolverInstance rt n self =
     \<lparr> call_translateVariables = translateVariables rt n self,
       call_resolveVariableChain = resolveVariableChain rt n self \<rparr>"

definition noResolver :: resolverMethods where
  "noResolver =
     \<lparr> call_translateVariables = (\<lambda>st v chain. None),
       call_resolveVariableChain = (\<lambda>st str variable chain. None) \<rparr>"

primrec resolver :: "runtime \<Rightarrow> nat \<Rightarrow> resolverMethods" where
  "resolver rt 0 = noResolver"
| "resolver rt (Suc n) = resolverInstance rt n (resolver rt n)"

section \<open>The public interface\<close>

text \<open>
  \<^verbatim>\<open>get\<close> and \<^verbatim>\<open>raw\<close> build their result by walking down from a fresh object. In the
  result under construction a \<open>Node\<close> is an object that the walk has created and a \<open>Leaf\<close>
  a value that an earlier key has stored.
\<close>

datatype node = Leaf jsval | Node "(string \<times> node) list"

fun toJs :: "node \<Rightarrow> jsval" where
  "toJs (Leaf v) = v"
| "toJs (Node kvs) = Obj (map (\<lambda>p. (fst p, toJs (snd p))) kvs)"

text \<open>\<^verbatim>\<open>obj[key] = v\<close> on an object: an existing key keeps its place, a new one comes last.\<close>

fun setProp :: "string \<Rightarrow> 'a \<Rightarrow> (string \<times> 'a) list \<Rightarrow> (string \<times> 'a) list" where
  "setProp key v [] = [(key, v)]"
| "setProp key v ((k, w) # kvs) =
     (if k = key then (key, v) # kvs else (k, w) # setProp key v kvs)"

text \<open>
  The walk \<^verbatim>\<open>for (i < parts.length - 1) { if (!current[part]) current[part] = {}; current = current[part]; }\<close>
  and the final \<^verbatim>\<open>current[last] = value\<close>, on the properties \<open>kvs\<close> of \<^verbatim>\<open>current\<close>. Where
  \<^verbatim>\<open>current[part]\<close> is a value stored by an earlier key: a falsy one is replaced by a
  fresh object; on another primitive the next assignment raises a \<^verbatim>\<open>TypeError\<close> (the
  code is a module, hence strict); an object or array is shared with the tree or the
  cache, and the walk would write into it. \<^verbatim>\<open>parts\<close> is never empty.
\<close>

fun assign :: "string list \<Rightarrow> jsval \<Rightarrow> (string \<times> node) list \<Rightarrow> error + (string \<times> node) list" where
  "assign [] value kvs = Inr kvs"
| "assign [lastPart] value kvs = Inr (setProp lastPart (Leaf value) kvs)"
| "assign (part # next # parts) value kvs =
     (let inner = (case map_of kvs part of
                     None \<Rightarrow> Inr []
                   | Some (Node sub) \<Rightarrow> Inr sub
                   | Some (Leaf v) \<Rightarrow>
                       if \<not> truthy v then Inr []
                       else if isObject v then Inl SharedWrite
                       else Inl TypeError)
      in case inner of
           Inl e \<Rightarrow> Inl e
         | Inr sub \<Rightarrow>
             (case assign (next # parts) value sub of
                Inl e \<Rightarrow> Inl e
              | Inr sub' \<Rightarrow> Inr (setProp part (Node sub') kvs)))"

text \<open>The loop of \<^verbatim>\<open>get\<close> over the keys, with \<^verbatim>\<open>result\<close>.\<close>

fun getLoop :: "runtime \<Rightarrow> nat \<Rightarrow> string list \<Rightarrow> (string \<times> node) list \<Rightarrow> configState
    \<Rightarrow> jsval sresult" where
  "getLoop rt n [] result st = returnS (toJs (Node result)) st"
| "getLoop rt n (key # keys) result st =
     bindS (call_translateVariables (resolver rt n) st (resolveConfigPath (config st) key) [])
       (\<lambda>value st1.
          if value = Undefined then getLoop rt n keys result st1
          else (case assign (splitOn CHR ''.'' key) value result of
                  Inl e \<Rightarrow> throwS e st1
                | Inr result1 \<Rightarrow> getLoop rt n keys result1 st1))"

definition get :: "runtime \<Rightarrow> nat \<Rightarrow> configState \<Rightarrow> string list \<Rightarrow> jsval sresult" where
  "get rt n st keys = getLoop rt n keys [] st"

fun rawLoop :: "string list \<Rightarrow> (string \<times> node) list \<Rightarrow> configState \<Rightarrow> jsval sresult" where
  "rawLoop [] result st = returnS (toJs (Node result)) st"
| "rawLoop (key # keys) result st =
     (let value = resolveConfigPath (config st) key
      in if value = Undefined then rawLoop keys result st
         else (case assign (splitOn CHR ''.'' key) value result of
                 Inl e \<Rightarrow> throwS e st
               | Inr result1 \<Rightarrow> rawLoop keys result1 st))"

definition raw :: "configState \<Rightarrow> string list \<Rightarrow> jsval sresult" where
  "raw st keys = rawLoop keys [] st"

text \<open>\<^verbatim>\<open>n.toString(16)\<close>\<close>

definition hexDigit :: "nat \<Rightarrow> char" where
  "hexDigit d = (if d < 10 then char_of (48 + d) else char_of (87 + d))"

fun toHex :: "nat \<Rightarrow> string" where
  "toHex n = (if n < 16 then [hexDigit n] else toHex (n div 16) @ [hexDigit (n mod 16)])"

definition hash :: "runtime \<Rightarrow> configState \<Rightarrow> string" where
  "hash rt st = toHex (unat (bunHash rt (jsonStringify rt (config st))))"

section \<open>Notions used to state the properties\<close>

text \<open>The parenthesis depth of a text: its opening minus its closing parentheses.\<close>

definition parenDepth :: "string \<Rightarrow> int" where
  "parenDepth s = int (count_list s CHR ''('') - int (count_list s CHR '')'')"

text \<open>
  The scan from \<open>startIdx\<close> ends at offset \<open>k\<close>: the text from \<open>startIdx\<close> through \<open>k\<close> has
  an opening parenthesis and depth zero.
\<close>

definition stopsAt :: "string \<Rightarrow> nat \<Rightarrow> nat \<Rightarrow> bool" where
  "stopsAt str startIdx k =
     (CHR ''('' \<in> set (sliceStr str startIdx (Suc k)) \<and>
      parenDepth (sliceStr str startIdx (Suc k)) = 0)"

text \<open>The same for a scan that is at offset \<open>i\<close> with the loop variables \<open>depth\<close> and \<open>started\<close>.\<close>

definition stopState :: "string \<Rightarrow> nat \<Rightarrow> int \<Rightarrow> bool \<Rightarrow> nat \<Rightarrow> bool" where
  "stopState str i depth started k =
     ((started \<or> CHR ''('' \<in> set (sliceStr str i (Suc k))) \<and>
      depth + parenDepth (sliceStr str i (Suc k)) = 0)"

text \<open>
  The runtime of the worked examples: an empty environment, and a \<^verbatim>\<open>Number\<close> and a
  \<^verbatim>\<open>JSON.parse\<close> that answer \<^verbatim>\<open>NaN\<close> and a syntax error. The examples apply them only to
  text that is neither a numeric literal nor JSON.
\<close>

definition exampleRuntime :: runtime where
  "exampleRuntime =
     \<lparr> env = Map.empty, numberOfString = (\<lambda>s. NaN), stringOfNumber = (\<lambda>n. ''NaN''),
       jsonParse = (\<lambda>s. None), sameObject = (\<lambda>a b. False), jsonStringify = (\<lambda>v. []),
       bunHash = (\<lambda>s. 0) \<rparr>"

section \<open>Evaluating the model\<close>

text \<open>A call with budget \<open>Suc n\<close> runs the body with the methods of budget \<open>n\<close>.\<close>

lemma call_evaluator [simp]:
  "call_resolveVariable (evaluator rt tree (Suc n)) = resolveVariable rt tree (evaluator rt tree n)"
  "call_evaluateNullishCoalesce (evaluator rt tree (Suc n)) =
     evaluateNullishCoalesce rt (evaluator rt tree n)"
  "call_evaluateIfElseLogic (evaluator rt tree (Suc n)) = evaluateIfElseLogic (evaluator rt tree n)"
  "call_evaluateLogicBlock (evaluator rt tree (Suc n)) = evaluateLogicBlock (evaluator rt tree n)"
  "call_evalLogical (evaluator rt tree (Suc n)) = evalLogical (evaluator rt tree n)"
  "call_evalComparison (evaluator rt tree (Suc n)) = evalComparison rt (evaluator rt tree n)"
  by (simp_all add: instanceMethods_def)

lemma call_resolver [simp]:
  "call_translateVariables (resolver rt (Suc n)) = translateVariables rt n (resolver rt n)"
  "call_resolveVariableChain (resolver rt (Suc n)) = resolveVariableChain rt n (resolver rt n)"
  by (simp_all add: resolverInstance_def)

lemma call_noResolver [simp]:
  "call_translateVariables (resolver rt 0) st v chain = None"
  "call_resolveVariableChain (resolver rt 0) st str variable chain = None"
  by (simp_all add: noResolver_def)

declare evaluator.simps [simp del] resolver.simps [simp del]

text \<open>A pattern that starts with \<^verbatim>\<open>^\<close> matches at offset 0 or nowhere.\<close>

lemma rxSearch_Bol: "rxSearch (Cat Bol r) s (Suc i) n = None"
  by (induction n arbitrary: i) (simp_all add: rxAt_def)

lemma rxExec_Bol:
  "rxExec (Cat Bol r) s =
     (case rxAt (Cat Bol r) s 0 of Some (j, cs) \<Rightarrow> Some (0, j, cs) | None \<Rightarrow> None)"
  by (simp add: rxExec_def rxSearch_Bol split: option.splits)

lemma rxSearch_numeral:
  "rxSearch r s i (numeral k) =
     (case rxAt r s i of Some (j, cs) \<Rightarrow> Some (i, j, cs) | None \<Rightarrow> rxSearch r s (Suc i) (pred_numeral k))"
  by (simp add: numeral_eq_Suc)

text \<open>
  Congruence rules that keep the simplifier out of a continuation until the call
  before it has been evaluated.
\<close>

lemma bindR_weak_cong: "m = m' \<Longrightarrow> bindR m f = bindR m' f"
  by simp

lemma bindS_weak_cong: "m = m' \<Longrightarrow> bindS m f = bindS m' f"
  by simp

lemma bindR_simps:
  "bindR None f = None"
  "bindR (Some (Inl e)) f = Some (Inl e)"
  "bindR (Some (Inr x)) f = f x"
  by (simp_all add: bindR_def)

lemma bindS_simps:
  "bindS None g = None"
  "bindS (Some (Inl e, st)) g = Some (Inl e, st)"
  "bindS (Some (Inr x, st)) g = g x st"
  by (simp_all add: bindS_def)

lemmas rx_defs =
  rxAt_def Plus_def PlusLazy_def Opt_def LitI_def Space_def NonSpace_def AnyChar_def Dot_def
  group_def sliceStr_def rxExec_Bol toLowerChar_def isSpace_def isLineTerminator_def
  isQuote_def rxTest_def removeMatch_def replaceByGroup_def

lemmas str_defs =
  trim_def trimStart_def trimEnd_def startsWith_def endsWith_def sliceEnd_def toLowerCase_def
  joinLines_def

lemmas ev_defs =
  evaluateLogicBlock_def evaluateNullishCoalesce_def evaluateIfElseLogic_def evalLogical_def
  evalComparison_def evaluateSide_def resolveVariable_def bindR_simps returnR_def throwR_def
  trimParens_def trimParensStr_def trimQuotes_def trimQuotesStr_def nullishCoalesceRegex_def
  ifThenElseRx_def opRegex_def notRx_def trimParensRx_def trimQuotesRx_def
  ConditionOperators_def tokenizeCondition_def pushTrimmed_def spaceAt_def
  findBalancedParenBlock_def compareValues_def looseEq_def isObject_def orEmpty_def isBlock_def
  numEq_def resolveConfigPath_def getProp_def

lemmas loop_simps = scanBlock.simps

section \<open>The block scanner: properties\<close>

declare scanBlock.simps [simp del]

lemma sliceStr_step:
  "i < length str \<Longrightarrow> i \<le> k \<Longrightarrow> sliceStr str i (Suc k) = str ! i # sliceStr str (Suc i) (Suc k)"
  by (simp add: sliceStr_def Suc_diff_le Cons_nth_drop_Suc[symmetric])

lemma sliceStr_empty: "sliceStr str i i = []"
  by (simp add: sliceStr_def)

lemma parenDepth_Cons:
  "parenDepth (c # s) = (if c = CHR ''('' then 1 else if c = CHR '')'' then -1 else 0) + parenDepth s"
  by (simp add: parenDepth_def)

lemma parenDepth_Nil: "parenDepth [] = 0"
  by (simp add: parenDepth_def)

lemma stopState_step:
  "i < length str \<Longrightarrow> i < k \<Longrightarrow>
   stopState str i depth started k =
   stopState str (Suc i) (depth + (if str ! i = CHR ''('' then 1 else if str ! i = CHR '')'' then -1 else 0))
      (started \<or> str ! i = CHR ''('') k"
  by (auto simp: stopState_def sliceStr_step parenDepth_Cons)

lemma stopState_here:
  "i < length str \<Longrightarrow>
   stopState str i depth started i =
   ((started \<or> str ! i = CHR ''('') \<and> depth + (if str ! i = CHR ''('' then 1 else if str ! i = CHR '')'' then -1 else 0) = 0)"
  by (auto simp: stopState_def sliceStr_step sliceStr_empty parenDepth_Cons parenDepth_Nil)

lemma scanBlock_unfold:
  "i < length str \<Longrightarrow>
   scanBlock str i depth started block =
     (if stopState str i depth started i then (block @ [str ! i], Suc i)
      else scanBlock str (Suc i) (depth + (if str ! i = CHR ''('' then 1 else if str ! i = CHR '')'' then -1 else 0))
             (started \<or> str ! i = CHR ''('') (block @ [str ! i]))"
  by (subst scanBlock.simps) (auto simp: stopState_here Let_def)

lemma scanBlock_end: "length str \<le> i \<Longrightarrow> scanBlock str i depth started block = (block, Suc i)"
  by (subst scanBlock.simps) simp

lemma scanBlock_stops:
  "j - i = n \<Longrightarrow> i \<le> j \<Longrightarrow> j < length str \<Longrightarrow> stopState str i depth started j \<Longrightarrow>
   (\<forall>k. i \<le> k \<and> k < j \<longrightarrow> \<not> stopState str i depth started k) \<Longrightarrow>
   scanBlock str i depth started block = (block @ sliceStr str i (Suc j), Suc j)"
proof (induction n arbitrary: i depth started block)
  case 0
  then have "i = j" by simp
  with 0 show ?case by (simp add: scanBlock_unfold sliceStr_step sliceStr_empty)
next
  case (Suc n)
  then have lt: "i < j" and il: "i < length str" by auto
  have nostop: "\<not> stopState str i depth started i" using Suc.prems(5) lt by auto
  let ?d = "depth + (if str ! i = CHR ''('' then 1 else if str ! i = CHR '')'' then -1 else 0)"
  let ?s = "started \<or> str ! i = CHR ''(''"
  have "scanBlock str (Suc i) ?d ?s (block @ [str ! i]) = ((block @ [str ! i]) @ sliceStr str (Suc i) (Suc j), Suc j)"
  proof (rule Suc.IH)
    show "j - Suc i = n" using Suc.prems(1) by simp
    show "Suc i \<le> j" using lt by simp
    show "j < length str" by fact
    show "stopState str (Suc i) ?d ?s j" using Suc.prems(4) stopState_step[OF il lt] by simp
    show "\<forall>k. Suc i \<le> k \<and> k < j \<longrightarrow> \<not> stopState str (Suc i) ?d ?s k"
    proof (intro allI impI)
      fix k assume k: "Suc i \<le> k \<and> k < j"
      then have "\<not> stopState str i depth started k" using Suc.prems(5) by simp
      moreover have "i < k" using k by simp
      ultimately show "\<not> stopState str (Suc i) ?d ?s k"
        using stopState_step[OF il, of k depth started] by simp
    qed
  qed
  then show ?case using nostop il lt by (simp add: scanBlock_unfold sliceStr_step)
qed

lemma scanBlock_runs_out:
  "length str - i = n \<Longrightarrow> (\<forall>k. i \<le> k \<and> k < length str \<longrightarrow> \<not> stopState str i depth started k) \<Longrightarrow>
   scanBlock str i depth started block = (block @ drop i str, Suc (max i (length str)))"
proof (induction n arbitrary: i depth started block)
  case 0
  then show ?case by (simp add: scanBlock_end max_def)
next
  case (Suc n)
  then have il: "i < length str" by auto
  have nostop: "\<not> stopState str i depth started i" using Suc.prems(2) il by auto
  let ?d = "depth + (if str ! i = CHR ''('' then 1 else if str ! i = CHR '')'' then -1 else 0)"
  let ?s = "started \<or> str ! i = CHR ''(''"
  have "scanBlock str (Suc i) ?d ?s (block @ [str ! i]) = ((block @ [str ! i]) @ drop (Suc i) str, Suc (max (Suc i) (length str)))"
  proof (rule Suc.IH)
    show "length str - Suc i = n" using Suc.prems(1) by simp
    show "\<forall>k. Suc i \<le> k \<and> k < length str \<longrightarrow> \<not> stopState str (Suc i) ?d ?s k"
    proof (intro allI impI)
      fix k assume k: "Suc i \<le> k \<and> k < length str"
      then have "\<not> stopState str i depth started k" using Suc.prems(2) by simp
      moreover have "i < k" using k by simp
      ultimately show "\<not> stopState str (Suc i) ?d ?s k"
        using stopState_step[OF il, of k depth started] by simp
    qed
  qed
  then show ?case using nostop il by (simp add: scanBlock_unfold max_def Cons_nth_drop_Suc)
qed

lemma stopState_start: "stopState str i 0 False k = stopsAt str i k"
  by (simp add: stopState_def stopsAt_def)

text \<open>
  Claim C6, as the code has it. The block scanner returns the text from the start offset
  through the first offset at which the scan stops (an opening parenthesis has been
  seen and the depth is zero again), with the offset immediately after it; when the
  start offset is at an opening parenthesis, that is the text from this parenthesis
  through its matching closing one. If no opening parenthesis occurs from the start
  offset on, the block is the scanned remainder.
\<close>

theorem findBalancedParenBlock_scans:
  "(startIdx \<le> j \<and> j < length str \<and> stopsAt str startIdx j \<and>
      (\<forall>k \<in> set [startIdx..<j]. \<not> stopsAt str startIdx k)
    \<longrightarrow> findBalancedParenBlock str startIdx = (sliceStr str startIdx (Suc j), Suc j)) \<and>
   (CHR ''('' \<notin> set (drop startIdx str)
    \<longrightarrow> fst (findBalancedParenBlock str startIdx) = drop startIdx str)"
proof (intro conjI impI)
  assume a: "startIdx \<le> j \<and> j < length str \<and> stopsAt str startIdx j \<and>
      (\<forall>k \<in> set [startIdx..<j]. \<not> stopsAt str startIdx k)"
  then show "findBalancedParenBlock str startIdx = (sliceStr str startIdx (Suc j), Suc j)"
    using scanBlock_stops[of j startIdx "j - startIdx" str 0 False "[]"]
    by (simp add: findBalancedParenBlock_def stopState_start)
next
  assume a: "CHR ''('' \<notin> set (drop startIdx str)"
  have "\<not> stopsAt str startIdx k" for k
    using a by (auto simp: stopsAt_def sliceStr_def dest: in_set_takeD)
  then show "fst (findBalancedParenBlock str startIdx) = drop startIdx str"
    using scanBlock_runs_out[of str startIdx "length str - startIdx" 0 False "[]"]
    by (simp add: findBalancedParenBlock_def stopState_start)
qed

theorem findBalancedParenBlock_scans_witness:
  "findBalancedParenBlock ''if (a) then (b (c)) else (d)'' 12 = (''(b (c))'', 19) \<and>
   fst (findBalancedParenBlock ''abc'' 1) = ''bc''"
proof -
  have "stopsAt ''if (a) then (b (c)) else (d)'' 12 18"
    by (simp add: stopsAt_def sliceStr_def parenDepth_def)
  moreover have "\<forall>k \<in> set [12..<18]. \<not> stopsAt ''if (a) then (b (c)) else (d)'' 12 k"
    by (simp add: stopsAt_def sliceStr_def parenDepth_def)
  ultimately show ?thesis
    using findBalancedParenBlock_scans[of 12 18 "''if (a) then (b (c)) else (d)''"]
      findBalancedParenBlock_scans[of 1 0 "''abc''"]
    by (simp add: sliceStr_def)
qed

text \<open>
  The block does not start at the first opening parenthesis: it starts at the start
  offset.
\<close>

theorem findBalancedParenBlock_prefix_counterexample:
  "findBalancedParenBlock ''ab(c)d'' 0 = (''ab(c)'', 5) \<and>
   fst (findBalancedParenBlock ''ab(c)d'' 0) \<noteq> ''(c)''"
  by (simp add: findBalancedParenBlock_def scanBlock.simps)

end
